theory Spec2Isabelle
  imports Complex_Main
begin

section \<open>Cesium's BSpline (Source/Core/BSpline.js)\<close>

text \<open>
  The module defines a constructor, a static matrix and the method \<open>evaluate\<close>.
  JavaScript numbers are modelled as \<open>real\<close> (the specification's data model speaks of
  real-valued vectors and times): rounding, NaN and the infinities are not part of the
  model. An exception is a value \<open>Inl e\<close>; \<open>undefined\<close> is \<open>None\<close>.
  Cartesian3 objects live in a store, since \<open>evaluate\<close> writes into module-level scratch
  objects and into a result object supplied by the caller.
\<close>

subsection \<open>Values\<close>

datatype error =
    MISSING_ARGUMENT
  | INVALID_LENGTH
  | LENGTH_MISMATCH
  | OUT_OF_RANGE
  | UNDEFINED_OPERAND

datatype Cartesian3 = Cartesian3 (x3: real) (y3: real) (z3: real)

datatype Cartesian4 = Cartesian4 (x4: real) (y4: real) (z4: real) (w4: real)

text \<open>The sixteen entries in the order of the arguments of \<open>new Matrix4(...)\<close>: row by row.\<close>

datatype Matrix4 = Matrix4 real real real real  real real real real
                           real real real real  real real real real

type_synonym ref = nat

text \<open>A JavaScript array read: \<open>undefined\<close> outside the array.\<close>

definition array_get :: "'a list \<Rightarrow> int \<Rightarrow> 'a option" where
  "array_get xs k = (if 0 \<le> k \<and> k < int (length xs) then Some (xs ! nat k) else None)"

subsection \<open>The curve object and the store\<close>

record BSpline =
  times_arr :: "real list"
  points :: "ref list"
  lastTimeIndex :: int

record options =
  opt_times :: "real list option"
  opt_points :: "ref list option"

record state =
  this :: BSpline
  heap :: "ref \<Rightarrow> Cartesian3"
  fresh :: ref
  scratchTimeVec :: Cartesian4

text \<open>The two module-level Cartesian3 scratch objects.\<close>

definition scratchTemp0 :: ref where
  "scratchTemp0 = 0"

definition scratchTemp1 :: ref where
  "scratchTemp1 = 1"

text \<open>
  A store as the module can see it: the scratch objects are private to the module, so no
  control point is one of them, and every object in use was allocated before \<open>fresh\<close>.
\<close>

definition wf_state :: "state \<Rightarrow> bool" where
  "wf_state s \<longleftrightarrow>
     scratchTemp0 < fresh s \<and> scratchTemp1 < fresh s \<and>
     list_all (\<lambda>p. p \<noteq> scratchTemp0 \<and> p \<noteq> scratchTemp1 \<and> p < fresh s) (points (this s))"

subsection \<open>Statements that may throw\<close>

type_synonym 'a prog = "state \<Rightarrow> (error + 'a) \<times> state"

definition ret :: "'a \<Rightarrow> 'a prog" where
  "ret a s = (Inr a, s)"

text \<open>Sequencing: an exception ends the run and keeps the writes made so far.\<close>

definition andThen :: "'a prog \<Rightarrow> ('a \<Rightarrow> 'b prog) \<Rightarrow> 'b prog" where
  "andThen m f s = (case m s of (Inl e, s') \<Rightarrow> (Inl e, s') | (Inr a, s') \<Rightarrow> f a s')"

subsection \<open>Cartesian3 and Matrix4\<close>

text \<open>
  Modelled from the spec: Cartesian3.js and Matrix4.js are not among the sources. The
  specification calls a control point a 3-component real-valued vector and the blend a
  componentwise weighted vector sum, written into a caller-supplied output or a new value.
  Each function reads its operands, throws when one is \<open>undefined\<close>, and writes the
  componentwise result into the object \<open>result\<close>, or into a new object when \<open>result\<close> is
  \<open>undefined\<close>; it returns that object.
\<close>

definition load :: "ref option \<Rightarrow> Cartesian3 prog" where
  "load r s = (case r of None \<Rightarrow> (Inl UNDEFINED_OPERAND, s) | Some a \<Rightarrow> (Inr (heap s a), s))"

definition store_result :: "ref option \<Rightarrow> Cartesian3 \<Rightarrow> ref prog" where
  "store_result r v s =
     (case r of
        None \<Rightarrow> (Inr (fresh s), s\<lparr>heap := (heap s)(fresh s := v), fresh := Suc (fresh s)\<rparr>)
      | Some a \<Rightarrow> (Inr a, s\<lparr>heap := (heap s)(a := v)\<rparr>))"

definition vec_sub :: "Cartesian3 \<Rightarrow> Cartesian3 \<Rightarrow> Cartesian3" where
  "vec_sub a b = Cartesian3 (x3 a - x3 b) (y3 a - y3 b) (z3 a - z3 b)"

definition vec_add :: "Cartesian3 \<Rightarrow> Cartesian3 \<Rightarrow> Cartesian3" where
  "vec_add a b = Cartesian3 (x3 a + x3 b) (y3 a + y3 b) (z3 a + z3 b)"

definition vec_scale :: "Cartesian3 \<Rightarrow> real \<Rightarrow> Cartesian3" where
  "vec_scale a k = Cartesian3 (x3 a * k) (y3 a * k) (z3 a * k)"

definition Cartesian3_subtract :: "ref option \<Rightarrow> ref option \<Rightarrow> ref option \<Rightarrow> ref prog" where
  "Cartesian3_subtract left right result =
     andThen (load left) (\<lambda>a. andThen (load right) (\<lambda>b. store_result result (vec_sub a b)))"

definition Cartesian3_add :: "ref option \<Rightarrow> ref option \<Rightarrow> ref option \<Rightarrow> ref prog" where
  "Cartesian3_add left right result =
     andThen (load left) (\<lambda>a. andThen (load right) (\<lambda>b. store_result result (vec_add a b)))"

definition Cartesian3_multiplyByScalar :: "ref option \<Rightarrow> real \<Rightarrow> ref option \<Rightarrow> ref prog" where
  "Cartesian3_multiplyByScalar cartesian scalar result =
     andThen (load cartesian) (\<lambda>a. store_result result (vec_scale a scalar))"

text \<open>
  Modelled from the spec: Matrix4.js is not among the sources. The specification has the
  monomial vector \<open>(u^3, u^2, u, 1)\<close> transformed by the basis matrix in a matrix-vector
  product: the point \<open>(x, y, z)\<close> is taken with fourth component 1, whatever the \<open>w\<close> of the
  object holds, and component \<open>k\<close> of the product is row \<open>k\<close> of the matrix times it.
  Reading the entries of an \<open>undefined\<close> matrix throws.
\<close>

definition Matrix4_multiplyByScalar :: "Matrix4 \<Rightarrow> real \<Rightarrow> Matrix4" where
  "Matrix4_multiplyByScalar m k =
     (case m of Matrix4 a0 a1 a2 a3 b0 b1 b2 b3 c0 c1 c2 c3 d0 d1 d2 d3 \<Rightarrow>
        Matrix4 (a0 * k) (a1 * k) (a2 * k) (a3 * k)  (b0 * k) (b1 * k) (b2 * k) (b3 * k)
                (c0 * k) (c1 * k) (c2 * k) (c3 * k)  (d0 * k) (d1 * k) (d2 * k) (d3 * k))"

definition Matrix4_multiplyByPoint :: "Matrix4 option \<Rightarrow> Cartesian4 \<Rightarrow> error + Cartesian4" where
  "Matrix4_multiplyByPoint matrix v =
     (case matrix of
        None \<Rightarrow> Inl UNDEFINED_OPERAND
      | Some (Matrix4 a0 a1 a2 a3 b0 b1 b2 b3 c0 c1 c2 c3 d0 d1 d2 d3) \<Rightarrow>
          Inr (Cartesian4 (a0 * x4 v + a1 * y4 v + a2 * z4 v + a3)
                          (b0 * x4 v + b1 * y4 v + b2 * z4 v + b3)
                          (c0 * x4 v + c1 * y4 v + c2 * z4 v + c3)
                          (d0 * x4 v + d1 * y4 v + d2 * z4 v + d3)))"

subsection \<open>The interval locator\<close>

text \<open>
  Modelled from the spec: \<open>Spline.prototype.findTimeInterval\<close> (Spline.js) is not among the
  sources. By the specification it fails with OUT_OF_RANGE when \<open>time\<close> is outside
  \<open>[times[0], times[last]]\<close> and otherwise returns the largest \<open>i\<close> with \<open>times[i] \<le> time\<close>
  and \<open>i \<le> len - 2\<close>; the hint changes the cost of the search and never its result, and
  the function has no side effect. The specification is silent about a \<open>times\<close> with fewer
  than two elements, which has no interval: the model reports OUT_OF_RANGE there.
\<close>

definition findTimeInterval :: "real list \<Rightarrow> real \<Rightarrow> int \<Rightarrow> error + int" where
  "findTimeInterval ts time startIndex =
     (if length ts < 2 \<or> time < ts ! 0 \<or> ts ! (length ts - 1) < time then Inl OUT_OF_RANGE
      else Inr (int (last (filter (\<lambda>k. ts ! k \<le> time) [0 ..< length ts - 1]))))"

subsection \<open>The constructor\<close>

definition BSpline_new :: "options option \<Rightarrow> error + BSpline" where
  "BSpline_new opts =
     (let options = (case opts of None \<Rightarrow> \<lparr>opt_times = None, opt_points = None\<rparr> | Some r \<Rightarrow> r)
      in case opt_times options of
           None \<Rightarrow> Inl MISSING_ARGUMENT
         | Some ts \<Rightarrow>
            (case opt_points options of
               None \<Rightarrow> Inl MISSING_ARGUMENT
             | Some ps \<Rightarrow>
                 if length ps < 2 then Inl INVALID_LENGTH
                 else if length ts \<noteq> length ps then Inl LENGTH_MISMATCH
                 else Inr \<lparr>times_arr = ts, points = ps, lastTimeIndex = 0\<rparr>))"

subsection \<open>The static properties of the module object\<close>

definition bSplineCoefficientMatrix :: Matrix4 where
  "bSplineCoefficientMatrix =
     Matrix4_multiplyByScalar
       (Matrix4 (-1) 3 (-3) 1
                3 (-6) 0 4
                (-3) 3 3 1
                1 0 0 0)
       (1 / 6)"

text \<open>
  Reading a property of the object \<open>BSpline\<close>: the module assigns \<open>bSplineCoefficientMatrix\<close>
  and no other static property, so any other name reads as \<open>undefined\<close>.
\<close>

definition BSpline_property :: "string \<Rightarrow> Matrix4 option" where
  "BSpline_property name =
     (if name = ''bSplineCoefficientMatrix'' then Some bSplineCoefficientMatrix else None)"

subsection \<open>evaluate\<close>

text \<open>Lines 139 to 142: the scratch vector gets \<open>z = u\<close>, \<open>y = u * u\<close>, \<open>x = y * u\<close>; its \<open>w\<close> stays.\<close>

definition setTimeVec :: "real \<Rightarrow> Cartesian4 \<Rightarrow> Cartesian4" where
  "setTimeVec u v = Cartesian4 ((u * u) * u) (u * u) u (w4 v)"

text \<open>Lines 146 to 170: the four control points around interval \<open>i\<close>.\<close>

definition selectWindow ::
  "ref list \<Rightarrow> int \<Rightarrow> (ref option \<times> ref option \<times> ref option \<times> ref option) prog" where
  "selectWindow ps i =
     (if i = 0 then
        (let p1 = array_get ps 0; p2 = array_get ps 1; p3 = array_get ps 2
         in andThen (Cartesian3_subtract p1 p2 (Some scratchTemp0)) (\<lambda>p0.
            andThen (Cartesian3_add (Some p0) p1 (Some p0)) (\<lambda>_.
            ret (Some p0, p1, p2, p3))))
      else if i = int (length ps) - 2 then
        (let p0 = array_get ps (i - 1); p1 = array_get ps i; p2 = array_get ps (i + 1)
         in andThen (Cartesian3_subtract p2 p1 (Some scratchTemp0)) (\<lambda>p3.
            andThen (Cartesian3_add (Some p3) p2 (Some p3)) (\<lambda>_.
            ret (p0, p1, p2, Some p3))))
      else ret (array_get ps (i - 1), array_get ps i, array_get ps (i + 1), array_get ps (i + 2)))"

text \<open>Lines 172 to 178: the weighted sum, accumulated in \<open>result\<close>.\<close>

definition blend ::
  "(ref option \<times> ref option \<times> ref option \<times> ref option) \<Rightarrow> Cartesian4 \<Rightarrow> ref option \<Rightarrow> ref prog"
  where
  "blend w coefs result0 =
     (case w of (p0, p1, p2, p3) \<Rightarrow>
        andThen (Cartesian3_multiplyByScalar p0 (x4 coefs) result0) (\<lambda>result.
        andThen (Cartesian3_multiplyByScalar p1 (y4 coefs) (Some scratchTemp1)) (\<lambda>_.
        andThen (Cartesian3_add (Some result) (Some scratchTemp1) (Some result)) (\<lambda>_.
        andThen (Cartesian3_multiplyByScalar p2 (z4 coefs) (Some scratchTemp1)) (\<lambda>_.
        andThen (Cartesian3_add (Some result) (Some scratchTemp1) (Some result)) (\<lambda>_.
        andThen (Cartesian3_multiplyByScalar p3 (w4 coefs) (Some scratchTemp1)) (\<lambda>_.
        Cartesian3_add (Some result) (Some scratchTemp1) (Some result))))))))"

text \<open>
  The body of \<open>evaluate\<close>, given the value \<open>matrix\<close> that the property read on line 144
  yields. The interval index is stored in the curve before anything else can throw. The
  reads \<open>times[i]\<close> and \<open>times[i + 1]\<close> are inside the array for every index the locator
  returns (lemma \<open>findTimeInterval_bounds\<close>), and \<open>u\<close> is the real quotient: where two
  successive times are equal JavaScript yields a non-finite number, which the model does
  not have.
\<close>

definition evaluate_with :: "Matrix4 option \<Rightarrow> real \<Rightarrow> ref option \<Rightarrow> ref prog" where
  "evaluate_with matrix time result s =
     (let ps = points (this s); ts = times_arr (this s)
      in case findTimeInterval ts time (lastTimeIndex (this s)) of
           Inl e \<Rightarrow> (Inl e, s)
         | Inr i \<Rightarrow>
            (let s1 = s\<lparr>this := (this s)\<lparr>lastTimeIndex := i\<rparr>\<rparr>;
                 u = (time - ts ! nat i) / (ts ! nat (i + 1) - ts ! nat i);
                 timeVec = setTimeVec u (scratchTimeVec s1);
                 s2 = s1\<lparr>scratchTimeVec := timeVec\<rparr>
             in case Matrix4_multiplyByPoint matrix timeVec of
                  Inl e \<Rightarrow> (Inl e, s2)
                | Inr coefs \<Rightarrow>
                    andThen (selectWindow ps i) (\<lambda>w. blend w coefs result)
                      (s2\<lparr>scratchTimeVec := coefs\<rparr>)))"

text \<open>Line 144 reads the property \<open>bezierCoefficientMatrix\<close> of the module object.\<close>

definition evaluate :: "real \<Rightarrow> ref option \<Rightarrow> ref prog" where
  "evaluate time result = evaluate_with (BSpline_property ''bezierCoefficientMatrix'') time result"

text \<open>A sequence of calls of \<open>evaluate\<close> on the same store, each with its time and result object.\<close>

fun evaluate_calls :: "(real \<times> ref option) list \<Rightarrow> state \<Rightarrow> state" where
  "evaluate_calls [] s = s"
| "evaluate_calls (q # qs) s = evaluate_calls qs (snd (evaluate (fst q) (snd q) s))"

subsection \<open>Curves and an example store\<close>

text \<open>What the constructor has checked of a curve it returned.\<close>

definition constructed :: "BSpline \<Rightarrow> bool" where
  "constructed c \<longleftrightarrow> 2 \<le> length (points c) \<and> length (times_arr c) = length (points c)"

definition hint_in_range :: "BSpline \<Rightarrow> bool" where
  "hint_in_range c \<longleftrightarrow>
     0 \<le> lastTimeIndex c \<and> lastTimeIndex c \<le> int (length (points c)) - 2"

text \<open>
  The curve of the specification's concrete scenario: times \<open>[0, 1, 2, 3]\<close> and the points
  \<open>(0,0,0)\<close>, \<open>(1,0,0)\<close>, \<open>(2,1,0)\<close>, \<open>(3,1,0)\<close>, held by the objects 2 to 5 of the store.
\<close>

definition example_heap :: "ref \<Rightarrow> Cartesian3" where
  "example_heap r =
     (if r = 2 then Cartesian3 0 0 0
      else if r = 3 then Cartesian3 1 0 0
      else if r = 4 then Cartesian3 2 1 0
      else if r = 5 then Cartesian3 3 1 0
      else Cartesian3 0 0 0)"

definition example_options :: options where
  "example_options = \<lparr>opt_times = Some [0, 1, 2, 3], opt_points = Some [2, 3, 4, 5]\<rparr>"

definition example_state :: state where
  "example_state =
     \<lparr>this = \<lparr>times_arr = [0, 1, 2, 3], points = [2, 3, 4, 5], lastTimeIndex = 0\<rparr>,
      heap = example_heap, fresh = 6, scratchTimeVec = Cartesian4 0 0 0 0\<rparr>"

subsection \<open>The value a call returns\<close>

text \<open>The outcome of a call as the caller sees it: the exception, or the point held by the
  returned object.\<close>

definition returned :: "(error + ref) \<times> state \<Rightarrow> error + Cartesian3" where
  "returned out = (case fst out of Inl e \<Rightarrow> Inl e | Inr r \<Rightarrow> Inr (heap (snd out) r))"

text \<open>
  The window and the blend in the words of the specification (4.2, steps 4 and 5), over the
  values \<open>P\<close> of the control points: the first interval takes the virtual point
  \<open>points[0] + (points[0] - points[1])\<close> before \<open>points[0], points[1], points[2]\<close>; the last
  interval takes \<open>points[i+1] + (points[i+1] - points[i])\<close> after
  \<open>points[i-1], points[i], points[i+1]\<close>; any other interval takes the four points
  \<open>points[i-1]\<close> to \<open>points[i+2]\<close>. The result is \<open>w0*p0 + w1*p1 + w2*p2 + w3*p3\<close>.
\<close>

definition spec_window ::
  "Cartesian3 list \<Rightarrow> int \<Rightarrow>
   Cartesian3 option \<times> Cartesian3 option \<times> Cartesian3 option \<times> Cartesian3 option" where
  "spec_window P i =
     (if i = 0 then
        (Some (vec_add (P ! 0) (vec_sub (P ! 0) (P ! 1))),
         array_get P 0, array_get P 1, array_get P 2)
      else if i = int (length P) - 2 then
        (array_get P (i - 1), array_get P i, array_get P (i + 1),
         Some (vec_add (P ! nat (i + 1)) (vec_sub (P ! nat (i + 1)) (P ! nat i))))
      else (array_get P (i - 1), array_get P i, array_get P (i + 1), array_get P (i + 2)))"

definition weighted_sum ::
  "Cartesian3 \<Rightarrow> Cartesian3 \<Rightarrow> Cartesian3 \<Rightarrow> Cartesian3 \<Rightarrow> Cartesian4 \<Rightarrow> Cartesian3" where
  "weighted_sum p0 p1 p2 p3 w =
     vec_add (vec_add (vec_add (vec_scale p0 (x4 w)) (vec_scale p1 (y4 w))) (vec_scale p2 (z4 w)))
       (vec_scale p3 (w4 w))"

text \<open>
  The outcome of the body of \<open>evaluate\<close> as a function of the matrix read on line 144, the
  times, the values of the control points and the query time alone.
\<close>

definition evaluate_value ::
  "Matrix4 option \<Rightarrow> real list \<Rightarrow> Cartesian3 list \<Rightarrow> real \<Rightarrow> error + Cartesian3" where
  "evaluate_value matrix ts P time =
     (case findTimeInterval ts time 0 of
        Inl e \<Rightarrow> Inl e
      | Inr i \<Rightarrow>
         (let u = (time - ts ! nat i) / (ts ! nat (i + 1) - ts ! nat i)
          in case Matrix4_multiplyByPoint matrix (setTimeVec u (Cartesian4 0 0 0 0)) of
               Inl e \<Rightarrow> Inl e
             | Inr coefs \<Rightarrow>
                (case spec_window P i of
                   (Some p0, Some p1, Some p2, Some p3) \<Rightarrow> Inr (weighted_sum p0 p1 p2 p3 coefs)
                 | _ \<Rightarrow> Inl UNDEFINED_OPERAND)))"

section \<open>Properties\<close>

subsection \<open>The primitive operations\<close>

lemma scratch_distinct: "scratchTemp0 \<noteq> scratchTemp1"
  by (simp add: scratchTemp0_def scratchTemp1_def)

lemma subtract_into:
  "Cartesian3_subtract (Some a) (Some b) (Some c) s =
     (Inr c, s\<lparr>heap := (heap s)(c := vec_sub (heap s a) (heap s b))\<rparr>)"
  by (simp add: Cartesian3_subtract_def andThen_def load_def store_result_def)

lemma add_into:
  "Cartesian3_add (Some a) (Some b) (Some c) s =
     (Inr c, s\<lparr>heap := (heap s)(c := vec_add (heap s a) (heap s b))\<rparr>)"
  by (simp add: Cartesian3_add_def andThen_def load_def store_result_def)

lemma scale_into:
  "Cartesian3_multiplyByScalar (Some a) k (Some c) s =
     (Inr c, s\<lparr>heap := (heap s)(c := vec_scale (heap s a) k)\<rparr>)"
  by (simp add: Cartesian3_multiplyByScalar_def andThen_def load_def store_result_def)

lemma scale_new:
  "Cartesian3_multiplyByScalar (Some a) k None s =
     (Inr (fresh s),
      s\<lparr>heap := (heap s)(fresh s := vec_scale (heap s a) k), fresh := Suc (fresh s)\<rparr>)"
  by (simp add: Cartesian3_multiplyByScalar_def andThen_def load_def store_result_def)

lemma scale_undefined:
  "Cartesian3_multiplyByScalar None k r s = (Inl UNDEFINED_OPERAND, s)"
  by (simp add: Cartesian3_multiplyByScalar_def andThen_def load_def)

lemma vec_add_commute: "vec_add a b = vec_add b a"
  by (simp add: vec_add_def)

lemma snd_andThen:
  "snd (andThen m f s) = (case fst (m s) of Inl e \<Rightarrow> snd (m s) | Inr a \<Rightarrow> snd (f a (snd (m s))))"
  by (simp add: andThen_def split: prod.splits sum.splits)

text \<open>The product does not read the \<open>w\<close> of the scratch vector.\<close>

lemma multiplyByPoint_w:
  "Matrix4_multiplyByPoint m (setTimeVec u v) = Matrix4_multiplyByPoint m (setTimeVec u v')"
  by (simp add: Matrix4_multiplyByPoint_def setTimeVec_def split: option.splits Matrix4.splits)

subsection \<open>The locator and the constructor\<close>

lemma findTimeInterval_hint: "findTimeInterval ts t h = findTimeInterval ts t h'"
  by (simp add: findTimeInterval_def)

lemma findTimeInterval_bounds:
  assumes "findTimeInterval ts t h = Inr i"
  shows "0 \<le> i \<and> i \<le> int (length ts) - 2"
proof -
  let ?cands = "filter (\<lambda>k. ts ! k \<le> t) [0 ..< length ts - 1]"
  from assms have len: "2 \<le> length ts" and lo: "ts ! 0 \<le> t" and i: "i = int (last ?cands)"
    by (auto simp: findTimeInterval_def split: if_splits)
  from len lo have "0 \<in> set ?cands" by simp
  then have ne: "?cands \<noteq> []" by (metis empty_iff list.set(1))
  then have "last ?cands \<in> set ?cands" by (rule last_in_set)
  then have "last ?cands < length ts - 1" by simp
  with i len show ?thesis by linarith
qed

lemma BSpline_new_constructed:
  "BSpline_new opts = Inr c \<Longrightarrow> constructed c \<and> hint_in_range c"
  by (auto simp: BSpline_new_def constructed_def hint_in_range_def Let_def
      split: option.splits if_splits)

lemma wf_state_points:
  "wf_state s \<longleftrightarrow>
     scratchTemp0 < fresh s \<and> scratchTemp1 < fresh s \<and>
     (\<forall>p \<in> set (points (this s)). p \<noteq> scratchTemp0 \<and> p \<noteq> scratchTemp1 \<and> p < fresh s)"
  by (simp add: wf_state_def list_all_iff)

subsection \<open>What evaluate does\<close>

lemma bezier_undefined: "BSpline_property ''bezierCoefficientMatrix'' = None"
  by (simp add: BSpline_property_def)

text \<open>
  The property read on line 144 yields \<open>undefined\<close>, so a call that passes the locator
  stores the interval index, fills the scratch vector and then throws.
\<close>

lemma evaluate_unfold:
  "evaluate t r s =
     (case findTimeInterval (times_arr (this s)) t (lastTimeIndex (this s)) of
        Inl e \<Rightarrow> (Inl e, s)
      | Inr i \<Rightarrow>
          (Inl UNDEFINED_OPERAND,
           s\<lparr>this := (this s)\<lparr>lastTimeIndex := i\<rparr>,
             scratchTimeVec :=
               setTimeVec ((t - times_arr (this s) ! nat i) /
                           (times_arr (this s) ! nat (i + 1) - times_arr (this s) ! nat i))
                 (scratchTimeVec s)\<rparr>))"
  by (simp add: evaluate_def evaluate_with_def bezier_undefined Matrix4_multiplyByPoint_def
      Let_def split: sum.splits)

lemma evaluate_never_returns: "fst (evaluate t r s) \<noteq> Inr a"
  by (simp add: evaluate_unfold split: sum.splits)

lemma evaluate_this:
  "this (snd (evaluate t r s)) =
     (case findTimeInterval (times_arr (this s)) t (lastTimeIndex (this s)) of
        Inl e \<Rightarrow> this s | Inr i \<Rightarrow> (this s)\<lparr>lastTimeIndex := i\<rparr>)"
  by (simp add: evaluate_unfold split: sum.splits)

lemma evaluate_times: "times_arr (this (snd (evaluate t r s))) = times_arr (this s)"
  by (simp add: evaluate_this split: sum.splits)

lemma returned_evaluate:
  "returned (evaluate t r s) =
     (case findTimeInterval (times_arr (this s)) t 0 of
        Inl e \<Rightarrow> Inl e | Inr i \<Rightarrow> Inl UNDEFINED_OPERAND)"
  by (simp add: returned_def evaluate_unfold
      findTimeInterval_hint [of _ _ "lastTimeIndex (this s)" 0] split: sum.splits)

subsection \<open>The window and the blend\<close>

lemma selectWindow_unfold:
  assumes "2 \<le> length ps" and "0 \<le> i" and "i \<le> int (length ps) - 2"
    and "scratchTemp0 \<notin> set ps"
  shows "selectWindow ps i s =
    (if i = 0 then
       (Inr (Some scratchTemp0, Some (ps ! 0), Some (ps ! 1), array_get ps 2),
        s\<lparr>heap := (heap s)(scratchTemp0 :=
              vec_add (heap s (ps ! 0)) (vec_sub (heap s (ps ! 0)) (heap s (ps ! 1))))\<rparr>)
     else if i = int (length ps) - 2 then
       (Inr (Some (ps ! nat (i - 1)), Some (ps ! nat i), Some (ps ! nat (i + 1)),
             Some scratchTemp0),
        s\<lparr>heap := (heap s)(scratchTemp0 :=
              vec_add (heap s (ps ! nat (i + 1)))
                (vec_sub (heap s (ps ! nat (i + 1))) (heap s (ps ! nat i))))\<rparr>)
     else
       (Inr (Some (ps ! nat (i - 1)), Some (ps ! nat i), Some (ps ! nat (i + 1)),
             Some (ps ! nat (i + 2))), s))"
proof -
  have neq: "ps ! k \<noteq> scratchTemp0" if "k < length ps" for k
    using that assms(4) by (metis nth_mem)
  from assms(1) have ne: "ps \<noteq> []" by auto
  show ?thesis
  proof (cases "i = 0")
    case True
    from assms(1) have "0 < length ps" and "1 < length ps" by linarith+
    then have "ps ! 0 \<noteq> scratchTemp0" and "ps ! 1 \<noteq> scratchTemp0"
      using neq by blast+
    with True assms(1) ne show ?thesis
      by (simp add: selectWindow_def subtract_into add_into andThen_def ret_def array_get_def Let_def vec_add_commute)
  next
    case False
    show ?thesis
    proof (cases "i = int (length ps) - 2")
      case True
      with assms(1) have "nat (i + 1) < length ps" and "nat i < length ps" by linarith+
      then have "ps ! nat (i + 1) \<noteq> scratchTemp0" and "ps ! nat i \<noteq> scratchTemp0"
        using neq by blast+
      with True False assms(1,2) ne show ?thesis
        by (simp add: selectWindow_def subtract_into add_into andThen_def ret_def array_get_def Let_def vec_add_commute)
    next
      case notlast: False
      with False assms(1,2,3) ne show ?thesis
        by (simp add: selectWindow_def subtract_into add_into andThen_def ret_def array_get_def Let_def)
    qed
  qed
qed

lemma selectWindow_refines:
  assumes "2 \<le> length ps" and "0 \<le> i" and "i \<le> int (length ps) - 2"
    and "scratchTemp0 \<notin> set ps"
  shows "\<exists>p0 p1 p2 p3 s'.
           selectWindow ps i s = (Inr (p0, p1, p2, p3), s') \<and>
           (map_option (heap s') p0, map_option (heap s') p1,
            map_option (heap s') p2, map_option (heap s') p3)
             = spec_window (map (heap s) ps) i \<and>
           (\<forall>r. r \<noteq> scratchTemp0 \<longrightarrow> heap s' r = heap s r)"
proof -
  have neq: "ps ! k \<noteq> scratchTemp0" if "k < length ps" for k
    using that assms(4) by (metis nth_mem)
  from assms(1) have ne: "ps \<noteq> []" by auto
  note unfold = selectWindow_unfold [OF assms, of s]
  show ?thesis
  proof (cases "i = 0")
    case True
    from assms(1) have "0 < length ps" and "1 < length ps" by linarith+
    then have "ps ! 0 \<noteq> scratchTemp0" and "ps ! 1 \<noteq> scratchTemp0"
      using neq by blast+
    moreover have "ps ! 2 \<noteq> scratchTemp0" if "2 < length ps"
      using that by (rule neq)
    ultimately show ?thesis
      using True assms(1) ne unfold
      by (simp add: spec_window_def array_get_def)
  next
    case False
    show ?thesis
    proof (cases "i = int (length ps) - 2")
      case True
      with assms(1,2) False
      have "nat (i + 1) < length ps" and "nat i < length ps" and "nat (i - 1) < length ps"
        by linarith+
      then have "ps ! nat (i + 1) \<noteq> scratchTemp0" and "ps ! nat i \<noteq> scratchTemp0"
        and "ps ! nat (i - 1) \<noteq> scratchTemp0"
        using neq by blast+
      with True False assms(1,2) ne unfold show ?thesis
        by (simp add: spec_window_def array_get_def)
    next
      case notlast: False
      with False assms(1,2,3) ne unfold show ?thesis
        by (simp add: spec_window_def array_get_def)
    qed
  qed
qed

text \<open>
  For a curve and a time that the locator places in interval \<open>i\<close>, the window block yields
  four objects whose values are those of the specification's rule, and writes the scratch
  object \<open>scratchTemp0\<close> alone.
\<close>

lemma selectWindow_located:
  assumes "constructed (this s)" and "wf_state s"
    and "findTimeInterval (times_arr (this s)) t (lastTimeIndex (this s)) = Inr i"
  shows "\<exists>p0 p1 p2 p3 s'.
           selectWindow (points (this s)) i s = (Inr (p0, p1, p2, p3), s') \<and>
           (map_option (heap s') p0, map_option (heap s') p1,
            map_option (heap s') p2, map_option (heap s') p3)
             = spec_window (map (heap s) (points (this s))) i \<and>
           (\<forall>r. r \<noteq> scratchTemp0 \<longrightarrow> heap s' r = heap s r)"
proof -
  from findTimeInterval_bounds [OF assms(3)] assms(1)
  have "2 \<le> length (points (this s))" and "0 \<le> i" and "i \<le> int (length (points (this s))) - 2"
    by (simp_all add: constructed_def)
  moreover from assms(2) have "scratchTemp0 \<notin> set (points (this s))"
    by (auto simp: wf_state_points)
  ultimately show ?thesis
    by (rule selectWindow_refines)
qed

lemma selectWindow_frame:
  "this (snd (selectWindow ps i s)) = this s \<and>
   fresh (snd (selectWindow ps i s)) = fresh s \<and>
   (\<forall>r. r \<noteq> scratchTemp0 \<longrightarrow> heap (snd (selectWindow ps i s)) r = heap s r)"
  by (simp add: selectWindow_def Cartesian3_subtract_def Cartesian3_add_def andThen_def ret_def
      load_def store_result_def Let_def split: option.splits)

lemma blend_new:
  assumes "a \<noteq> fresh s" "b \<noteq> fresh s" "c \<noteq> fresh s" "d \<noteq> fresh s"
    and "b \<noteq> scratchTemp1" "c \<noteq> scratchTemp1" "d \<noteq> scratchTemp1"
    and "scratchTemp1 \<noteq> fresh s"
  shows "blend (Some a, Some b, Some c, Some d) w None s =
     (Inr (fresh s),
      s\<lparr>heap := (heap s)
             (scratchTemp1 := vec_scale (heap s d) (w4 w),
              fresh s := weighted_sum (heap s a) (heap s b) (heap s c) (heap s d) w),
        fresh := Suc (fresh s)\<rparr>)"
  using assms
  by (simp add: blend_def scale_new scale_into add_into andThen_def weighted_sum_def)

lemma blend_missing:
  "fst (blend (Some a, Some b, Some c, None) w None s) = Inl UNDEFINED_OPERAND"
  by (simp add: blend_def scale_new scale_into scale_undefined add_into andThen_def)

lemma blend_frame:
  "this (snd (blend w coefs None s)) = this s \<and>
   fresh s \<le> fresh (snd (blend w coefs None s)) \<and>
   (\<forall>r. r < fresh s \<longrightarrow> r \<noteq> scratchTemp1 \<longrightarrow> heap (snd (blend w coefs None s)) r = heap s r)"
proof (cases w)
  case (fields p0 p1 p2 p3)
  show ?thesis
    unfolding fields
    by (cases p0; cases p1; cases p2; cases p3;
        simp add: blend_def scale_new scale_into scale_undefined add_into andThen_def)
qed

lemma window_blend_value:
  assumes len: "2 \<le> length ps" and i0: "0 \<le> i" and i1: "i \<le> int (length ps) - 2"
    and pts: "\<forall>p \<in> set ps. p \<noteq> scratchTemp0 \<and> p \<noteq> scratchTemp1 \<and> p < fresh s"
    and sc: "scratchTemp0 < fresh s" "scratchTemp1 < fresh s"
  shows "returned (andThen (selectWindow ps i) (\<lambda>w. blend w coefs None) s) =
     (case spec_window (map (heap s) ps) i of
        (Some p0, Some p1, Some p2, Some p3) \<Rightarrow> Inr (weighted_sum p0 p1 p2 p3 coefs)
      | _ \<Rightarrow> Inl UNDEFINED_OPERAND)"
proof -
  have pt: "ps ! k \<noteq> scratchTemp0 \<and> ps ! k \<noteq> scratchTemp1 \<and> ps ! k \<noteq> fresh s"
    if "k < length ps" for k
  proof -
    from that have "ps ! k \<in> set ps" by (rule nth_mem)
    with pts show ?thesis by fastforce
  qed
  from pts have notin: "scratchTemp0 \<notin> set ps" by blast
  from sc have sc': "scratchTemp0 \<noteq> fresh s" "scratchTemp1 \<noteq> fresh s" by simp_all
  from len have ne: "ps \<noteq> []" by auto
  note sw = selectWindow_unfold [OF len i0 i1 notin, of s]
  show ?thesis
  proof (cases "i = 0")
    case True
    from len have k: "0 < length ps" "1 < length ps" by linarith+
    note p0 = pt [OF k(1)] and p1 = pt [OF k(2)]
    show ?thesis
    proof (cases "2 < length ps")
      case long: True
      note p2 = pt [OF long]
      from True long len ne sw p0 p1 p2 sc' scratch_distinct show ?thesis
        by (simp add: andThen_def blend_new returned_def spec_window_def array_get_def)
    next
      case False
      with True len ne sw show ?thesis
        by (simp add: andThen_def blend_missing returned_def spec_window_def array_get_def)
    qed
  next
    case False
    show ?thesis
    proof (cases "i = int (length ps) - 2")
      case True
      with len i0 False
      have k: "nat (i - 1) < length ps" "nat i < length ps" "nat (i + 1) < length ps"
        by linarith+
      note p0 = pt [OF k(1)] and p1 = pt [OF k(2)] and p2 = pt [OF k(3)]
      from True False len i0 ne sw p0 p1 p2 sc' scratch_distinct show ?thesis
        by (simp add: andThen_def blend_new returned_def spec_window_def array_get_def)
    next
      case notlast: False
      with len i0 i1 False
      have k: "nat (i - 1) < length ps" "nat i < length ps" "nat (i + 1) < length ps"
        "nat (i + 2) < length ps"
        by linarith+
      note p0 = pt [OF k(1)] and p1 = pt [OF k(2)] and p2 = pt [OF k(3)] and p3 = pt [OF k(4)]
      from notlast False len i0 i1 ne sw p0 p1 p2 p3 sc' show ?thesis
        by (simp add: andThen_def blend_new returned_def spec_window_def array_get_def)
    qed
  qed
qed

lemma window_blend_frame:
  assumes "scratchTemp0 < fresh s"
  shows "this (snd (andThen (selectWindow ps i) (\<lambda>w. blend w coefs None) s)) = this s \<and>
         fresh s \<le> fresh (snd (andThen (selectWindow ps i) (\<lambda>w. blend w coefs None) s)) \<and>
         (\<forall>r. r < fresh s \<longrightarrow> r \<noteq> scratchTemp0 \<longrightarrow> r \<noteq> scratchTemp1 \<longrightarrow>
              heap (snd (andThen (selectWindow ps i) (\<lambda>w. blend w coefs None) s)) r = heap s r)"
proof (cases "fst (selectWindow ps i s)")
  case (Inl e)
  with selectWindow_frame [of ps i s] show ?thesis
    by (simp add: snd_andThen)
next
  case (Inr w)
  with selectWindow_frame [of ps i s] blend_frame [of w coefs "snd (selectWindow ps i s)"]
  show ?thesis
    by (simp add: snd_andThen)
qed

subsection \<open>The body of evaluate with a result object of its own\<close>

text \<open>
  Called without a result object on a well-formed store, the body returns what
  \<open>evaluate_value\<close> computes from the times and the values of the control points, and it
  leaves the curve's times, points and point objects as they were.
\<close>

lemma evaluate_with_value:
  assumes wf: "wf_state s" and con: "constructed (this s)"
  shows "returned (evaluate_with m t None s) =
           evaluate_value m (times_arr (this s)) (map (heap s) (points (this s))) t"
proof (cases "findTimeInterval (times_arr (this s)) t (lastTimeIndex (this s))")
  case (Inl e)
  moreover from Inl have "findTimeInterval (times_arr (this s)) t 0 = Inl e"
    by (simp add: findTimeInterval_hint [of _ _ 0 "lastTimeIndex (this s)"])
  ultimately show ?thesis
    by (simp add: evaluate_with_def evaluate_value_def returned_def)
next
  case (Inr i)
  then have loc0: "findTimeInterval (times_arr (this s)) t 0 = Inr i"
    by (simp add: findTimeInterval_hint [of _ _ 0 "lastTimeIndex (this s)"])
  let ?ps = "points (this s)" and ?ts = "times_arr (this s)"
  let ?u = "(t - ?ts ! nat i) / (?ts ! nat (i + 1) - ?ts ! nat i)"
  from findTimeInterval_bounds [OF Inr] con
  have len: "2 \<le> length ?ps" and i0: "0 \<le> i" and i1: "i \<le> int (length ?ps) - 2"
    by (simp_all add: constructed_def)
  show ?thesis
  proof (cases "Matrix4_multiplyByPoint m (setTimeVec ?u (scratchTimeVec s))")
    case bad: (Inl e)
    then have "Matrix4_multiplyByPoint m (setTimeVec ?u (Cartesian4 0 0 0 0)) = Inl e"
      by (simp add: multiplyByPoint_w [of m ?u "Cartesian4 0 0 0 0" "scratchTimeVec s"])
    with Inr loc0 bad show ?thesis
      by (simp add: evaluate_with_def evaluate_value_def returned_def Let_def)
  next
    case good: (Inr coefs)
    then have m0: "Matrix4_multiplyByPoint m (setTimeVec ?u (Cartesian4 0 0 0 0)) = Inr coefs"
      by (simp add: multiplyByPoint_w [of m ?u "Cartesian4 0 0 0 0" "scratchTimeVec s"])
    let ?s3 = "s\<lparr>this := (this s)\<lparr>lastTimeIndex := i\<rparr>, scratchTimeVec := coefs\<rparr>"
    from wf have pts: "\<forall>p \<in> set ?ps. p \<noteq> scratchTemp0 \<and> p \<noteq> scratchTemp1 \<and> p < fresh ?s3"
      and sc: "scratchTemp0 < fresh ?s3" "scratchTemp1 < fresh ?s3"
      by (simp_all add: wf_state_points)
    have run: "evaluate_with m t None s = andThen (selectWindow ?ps i) (\<lambda>w. blend w coefs None) ?s3"
      using Inr good by (simp add: evaluate_with_def Let_def)
    from window_blend_value [OF len i0 i1 pts sc, of coefs] loc0 m0 show ?thesis
      by (simp add: run evaluate_value_def Let_def)
  qed
qed

lemma evaluate_with_frame:
  assumes wf: "wf_state s"
  shows "wf_state (snd (evaluate_with m t None s)) \<and>
         times_arr (this (snd (evaluate_with m t None s))) = times_arr (this s) \<and>
         points (this (snd (evaluate_with m t None s))) = points (this s) \<and>
         map (heap (snd (evaluate_with m t None s))) (points (this s))
           = map (heap s) (points (this s))"
proof (cases "findTimeInterval (times_arr (this s)) t (lastTimeIndex (this s))")
  case (Inl e)
  with wf show ?thesis by (simp add: evaluate_with_def)
next
  case (Inr i)
  let ?ps = "points (this s)" and ?ts = "times_arr (this s)"
  let ?u = "(t - ?ts ! nat i) / (?ts ! nat (i + 1) - ?ts ! nat i)"
  show ?thesis
  proof (cases "Matrix4_multiplyByPoint m (setTimeVec ?u (scratchTimeVec s))")
    case bad: (Inl e)
    with Inr wf show ?thesis
      by (simp add: evaluate_with_def Let_def wf_state_points)
  next
    case good: (Inr coefs)
    let ?s3 = "s\<lparr>this := (this s)\<lparr>lastTimeIndex := i\<rparr>, scratchTimeVec := coefs\<rparr>"
    have run: "evaluate_with m t None s = andThen (selectWindow ?ps i) (\<lambda>w. blend w coefs None) ?s3"
      using Inr good by (simp add: evaluate_with_def Let_def)
    from wf have "scratchTemp0 < fresh ?s3" by (simp add: wf_state_points)
    from window_blend_frame [OF this, of ?ps i coefs] wf show ?thesis
      by (auto simp: run wf_state_points)
  qed
qed

subsection \<open>The example curve\<close>

lemma example_new: "BSpline_new (Some example_options) = Inr (this example_state)"
  by (simp add: BSpline_new_def example_options_def example_state_def)

lemma example_constructed: "constructed (this example_state)"
  by (simp add: constructed_def example_state_def)

lemma example_wf: "wf_state example_state"
  by (simp add: wf_state_def example_state_def scratchTemp0_def scratchTemp1_def)

lemma example_locate: "findTimeInterval [0, 1, 2, 3] (3 / 2) h = Inr 1"
  by (simp add: findTimeInterval_def upt_rec)

lemma example_coefs:
  "Matrix4_multiplyByPoint (BSpline_property ''bSplineCoefficientMatrix'') (setTimeVec (1 / 2) v)
     = Inr (Cartesian4 (1 / 48) (23 / 48) (23 / 48) (1 / 48))"
  by (simp add: BSpline_property_def bSplineCoefficientMatrix_def Matrix4_multiplyByScalar_def
      Matrix4_multiplyByPoint_def setTimeVec_def)

lemma example_value:
  "returned (evaluate_with (BSpline_property ''bSplineCoefficientMatrix'') (3 / 2) None
       example_state)
     = Inr (Cartesian3 (3 / 2) (1 / 2) 0)"
proof -
  have "evaluate_value (BSpline_property ''bSplineCoefficientMatrix'')
          (times_arr (this example_state))
          (map (heap example_state) (points (this example_state))) (3 / 2)
        = Inr (Cartesian3 (3 / 2) (1 / 2) 0)"
    by (simp add: example_state_def evaluate_value_def example_locate example_coefs
        spec_window_def array_get_def example_heap_def weighted_sum_def vec_add_def vec_scale_def)
  then show ?thesis
    by (simp only: evaluate_with_value [OF example_wf example_constructed])
qed

lemma example_endpoints_value:
  "returned (evaluate_with (BSpline_property ''bSplineCoefficientMatrix'') 0 None example_state)
     = Inr (Cartesian3 0 0 0) \<and>
   returned (evaluate_with (BSpline_property ''bSplineCoefficientMatrix'') 3 None example_state)
     = Inr (Cartesian3 3 1 0)"
proof -
  let ?M = "BSpline_property ''bSplineCoefficientMatrix''"
  have loc: "findTimeInterval [0, 1, 2, 3] 0 0 = Inr 0" "findTimeInterval [0, 1, 2, 3] 3 0 = Inr 2"
    by (simp_all add: findTimeInterval_def upt_rec)
  have coefs: "Matrix4_multiplyByPoint ?M (setTimeVec 0 v) = Inr (Cartesian4 (1 / 6) (2 / 3) (1 / 6) 0)"
    "Matrix4_multiplyByPoint ?M (setTimeVec 1 v) = Inr (Cartesian4 0 (1 / 6) (2 / 3) (1 / 6))" for v
    by (simp_all add: BSpline_property_def bSplineCoefficientMatrix_def
        Matrix4_multiplyByScalar_def Matrix4_multiplyByPoint_def setTimeVec_def)
  have "evaluate_value ?M (times_arr (this example_state))
          (map (heap example_state) (points (this example_state))) 0 = Inr (Cartesian3 0 0 0)"
    by (simp add: example_state_def evaluate_value_def loc coefs spec_window_def array_get_def
        example_heap_def weighted_sum_def vec_add_def vec_sub_def vec_scale_def)
  moreover
  have "evaluate_value ?M (times_arr (this example_state))
          (map (heap example_state) (points (this example_state))) 3 = Inr (Cartesian3 3 1 0)"
    by (simp add: example_state_def evaluate_value_def loc coefs spec_window_def array_get_def
        example_heap_def weighted_sum_def vec_add_def vec_sub_def vec_scale_def)
  ultimately show ?thesis
    by (simp only: evaluate_with_value [OF example_wf example_constructed])
qed

text \<open>
  A curve of two points has the single interval 0, whose branch reads \<open>points[2]\<close>: with
  the matrix the module defines, the blend meets an \<open>undefined\<close> operand.
\<close>

lemma two_point_curve_undefined:
  assumes wf: "wf_state s" and con: "constructed (this s)"
    and two: "length (points (this s)) = 2"
    and loc: "findTimeInterval (times_arr (this s)) t 0 = Inr i"
  shows "returned (evaluate_with (BSpline_property ''bSplineCoefficientMatrix'') t None s)
           = Inl UNDEFINED_OPERAND"
proof -
  from findTimeInterval_bounds [OF loc] con two have i: "i = 0"
    by (simp add: constructed_def)
  obtain coefs where "Matrix4_multiplyByPoint (BSpline_property ''bSplineCoefficientMatrix'')
      (setTimeVec ((t - times_arr (this s) ! nat i) /
                   (times_arr (this s) ! nat (i + 1) - times_arr (this s) ! nat i))
         (Cartesian4 0 0 0 0)) = Inr coefs"
    by (simp add: BSpline_property_def bSplineCoefficientMatrix_def Matrix4_multiplyByScalar_def
        Matrix4_multiplyByPoint_def)
  with loc i two show ?thesis
    by (simp add: evaluate_with_value [OF wf con] evaluate_value_def spec_window_def
        array_get_def)
qed

section \<open>The claims\<close>

subsection \<open>The constructor\<close>

text \<open>
  C6. The constructor fails with MISSING_ARGUMENT when the times or the points are absent
  (also when no options object is passed), with INVALID_LENGTH when there are fewer than
  two points, with LENGTH_MISMATCH when the two arrays differ in length, and otherwise
  returns a curve holding the given times and points, with the hint 0. The checks run in
  this order, so each error is the one of the first check that fails.
\<close>

theorem constructor_contract:
  "(opt_times opts = None \<or> opt_points opts = None
      \<longrightarrow> BSpline_new (Some opts) = Inl MISSING_ARGUMENT) \<and>
   (opt_times opts = Some ts \<and> opt_points opts = Some ps \<and> length ps < 2
      \<longrightarrow> BSpline_new (Some opts) = Inl INVALID_LENGTH) \<and>
   (opt_times opts = Some ts \<and> opt_points opts = Some ps \<and> 2 \<le> length ps \<and>
    length ts \<noteq> length ps
      \<longrightarrow> BSpline_new (Some opts) = Inl LENGTH_MISMATCH) \<and>
   (opt_times opts = Some ts \<and> opt_points opts = Some ps \<and> 2 \<le> length ps \<and>
    length ts = length ps
      \<longrightarrow> BSpline_new (Some opts) = Inr \<lparr>times_arr = ts, points = ps, lastTimeIndex = 0\<rparr>) \<and>
   BSpline_new None = Inl MISSING_ARGUMENT"
  by (auto simp: BSpline_new_def Let_def split: option.splits)

theorem constructor_contract_witness:
  "BSpline_new (Some \<lparr>opt_times = None, opt_points = Some [2, 3]\<rparr>) = Inl MISSING_ARGUMENT \<and>
   BSpline_new (Some \<lparr>opt_times = Some [0], opt_points = Some [2]\<rparr>) = Inl INVALID_LENGTH \<and>
   BSpline_new (Some \<lparr>opt_times = Some [0, 1, 2], opt_points = Some [2, 3]\<rparr>)
     = Inl LENGTH_MISMATCH \<and>
   BSpline_new (Some \<lparr>opt_times = Some [0, 1], opt_points = Some [2, 3]\<rparr>)
     = Inr \<lparr>times_arr = [0, 1], points = [2, 3], lastTimeIndex = 0\<rparr>"
  using constructor_contract [of "\<lparr>opt_times = None, opt_points = Some [2, 3]\<rparr>" "[]" "[]"]
        constructor_contract [of "\<lparr>opt_times = Some [0], opt_points = Some [2]\<rparr>" "[0]" "[2]"]
        constructor_contract [of "\<lparr>opt_times = Some [0, 1, 2], opt_points = Some [2, 3]\<rparr>"
                                 "[0, 1, 2]" "[2, 3]"]
        constructor_contract [of "\<lparr>opt_times = Some [0, 1], opt_points = Some [2, 3]\<rparr>"
                                 "[0, 1]" "[2, 3]"]
  by simp

subsection \<open>The invariant of a curve\<close>

lemma evaluate_preserves:
  assumes "constructed (this s)" and "hint_in_range (this s)"
  shows "constructed (this (snd (evaluate t r s))) \<and> hint_in_range (this (snd (evaluate t r s)))"
proof (cases "findTimeInterval (times_arr (this s)) t (lastTimeIndex (this s))")
  case (Inl e)
  with assms show ?thesis by (simp add: evaluate_this)
next
  case (Inr i)
  from findTimeInterval_bounds [OF Inr] assms(1) Inr show ?thesis
    by (simp add: evaluate_this constructed_def hint_in_range_def)
qed

lemma evaluate_calls_preserves:
  "constructed (this s) \<Longrightarrow> hint_in_range (this s) \<Longrightarrow>
   constructed (this (evaluate_calls qs s)) \<and> hint_in_range (this (evaluate_calls qs s))"
proof (induction qs arbitrary: s)
  case Nil
  then show ?case by simp
next
  case (Cons q qs)
  from evaluate_preserves [OF Cons.prems, of "fst q" "snd q"] Cons.IH show ?case by simp
qed

text \<open>
  C9. The hint is an index in \<open>[0, points.length - 2]\<close> right after construction and after
  every call of \<open>evaluate\<close>: for a curve the constructor returned and any sequence of calls
  (the empty one included), whatever their times and result objects.
\<close>

theorem hint_range_invariant:
  assumes "BSpline_new opts = Inr c" and "this s = c"
  shows "0 \<le> lastTimeIndex (this (evaluate_calls qs s)) \<and>
         lastTimeIndex (this (evaluate_calls qs s))
           \<le> int (length (points (this (evaluate_calls qs s)))) - 2"
proof -
  from BSpline_new_constructed [OF assms(1)] assms(2)
  have "constructed (this s)" and "hint_in_range (this s)" by simp_all
  from evaluate_calls_preserves [OF this, of qs] show ?thesis
    by (simp add: hint_in_range_def)
qed

theorem hint_range_invariant_witness:
  "BSpline_new (Some example_options) = Inr (this example_state) \<and>
   0 \<le> lastTimeIndex (this (evaluate_calls [(5 / 2, None), (7, None)] example_state)) \<and>
   lastTimeIndex (this (evaluate_calls [(5 / 2, None), (7, None)] example_state))
     \<le> int (length (points (this (evaluate_calls [(5 / 2, None), (7, None)] example_state)))) - 2"
  using hint_range_invariant [OF example_new refl, of "[(5 / 2, None), (7, None)]"] example_new
  by simp

subsection \<open>Errors of evaluate\<close>

text \<open>
  C7. On a curve the constructor returned, \<open>evaluate\<close> fails with OUT_OF_RANGE exactly
  when the time is below \<open>times[0]\<close> or above \<open>times[times.length - 1]\<close>: the time is never
  clamped, and a time inside the range never gives this error.
\<close>

theorem evaluate_out_of_range_iff:
  assumes "constructed (this s)"
  shows "fst (evaluate t r s) = Inl OUT_OF_RANGE \<longleftrightarrow>
           t < times_arr (this s) ! 0 \<or>
           times_arr (this s) ! (length (times_arr (this s)) - 1) < t"
  using assms
  by (auto simp: evaluate_unfold findTimeInterval_def constructed_def split: sum.splits)

theorem evaluate_out_of_range_iff_witness:
  "constructed (this example_state) \<and>
   fst (evaluate 4 None example_state) = Inl OUT_OF_RANGE \<and>
   fst (evaluate 1 None example_state) \<noteq> Inl OUT_OF_RANGE"
  using evaluate_out_of_range_iff [OF example_constructed, of 4 None]
        evaluate_out_of_range_iff [OF example_constructed, of 1 None]
        example_constructed
  by (simp add: example_state_def)

subsection \<open>What evaluate changes\<close>

text \<open>
  C8. A call of \<open>evaluate\<close>, with any result object (a control point of the curve
  included), leaves the times, the array of points and every Cartesian3 object of the
  store as they were, and allocates nothing; of the curve it changes the hint alone, to
  the index the locator returned, and nothing at all when the locator failed.
\<close>

theorem evaluate_frame:
  "times_arr (this (snd (evaluate t r s))) = times_arr (this s) \<and>
   points (this (snd (evaluate t r s))) = points (this s) \<and>
   heap (snd (evaluate t r s)) = heap s \<and>
   fresh (snd (evaluate t r s)) = fresh s \<and>
   this (snd (evaluate t r s)) =
     (case findTimeInterval (times_arr (this s)) t (lastTimeIndex (this s)) of
        Inl e \<Rightarrow> this s
      | Inr i \<Rightarrow> (this s)\<lparr>lastTimeIndex := i\<rparr>)"
  by (simp add: evaluate_unfold split: sum.splits)

subsection \<open>The basis matrix\<close>

text \<open>
  C4. Partition of unity: the four weights that the matrix-vector product of the static
  matrix \<open>bSplineCoefficientMatrix\<close> with the monomial vector \<open>(u^3, u^2, u, 1)\<close> yields sum
  to 1, for every \<open>u\<close> (those of \<open>[0, 1]\<close> among them).
\<close>

theorem partition_of_unity:
  "\<exists>c. Matrix4_multiplyByPoint (BSpline_property ''bSplineCoefficientMatrix'') (setTimeVec u v)
          = Inr c \<and>
       x4 c + y4 c + z4 c + w4 c = 1"
  by (simp add: BSpline_property_def bSplineCoefficientMatrix_def Matrix4_multiplyByScalar_def
      Matrix4_multiplyByPoint_def setTimeVec_def algebra_simps)

subsection \<open>The four-point window\<close>

text \<open>
  C3. The claim is that \<open>evaluate\<close> selects the four-point window around the located
  interval. On the example curve \<open>evaluate(0)\<close> locates interval 0 and throws on line 144
  before lines 146 to 170 run: the scratch object \<open>scratchTemp0\<close>, which the window block
  fills with the virtual point, still holds what it held. Run on the same store, the block
  itself yields \<open>(scratchTemp0, points[0], points[1], points[2])\<close> with the virtual point
  \<open>points[0] + (points[0] - points[1]) = (-1, 0, 0)\<close> in \<open>scratchTemp0\<close>, and so does the body
  of \<open>evaluate\<close> with the matrix the module defines.
\<close>

theorem evaluate_window_not_reached:
  "returned (evaluate 0 None example_state) = Inl UNDEFINED_OPERAND \<and>
   heap (snd (evaluate 0 None example_state)) scratchTemp0 = Cartesian3 0 0 0 \<and>
   fst (selectWindow (points (this example_state)) 0 example_state)
     = Inr (Some scratchTemp0, Some 2, Some 3, Some 4) \<and>
   heap (snd (selectWindow (points (this example_state)) 0 example_state)) scratchTemp0
     = Cartesian3 (- 1) 0 0 \<and>
   heap (snd (evaluate_with (BSpline_property ''bSplineCoefficientMatrix'') 0 None example_state))
     scratchTemp0 = Cartesian3 (- 1) 0 0"
proof (intro conjI)
  let ?M = "BSpline_property ''bSplineCoefficientMatrix''"
  have loc: "findTimeInterval [0, 1, 2, 3] 0 h = Inr 0" for h
    by (simp add: findTimeInterval_def upt_rec)
  have notin: "scratchTemp0 \<notin> set [2, 3, 4, 5]"
    by (simp add: scratchTemp0_def)
  have sw: "selectWindow [2, 3, 4, 5] 0 s =
      (Inr (Some scratchTemp0, Some 2, Some 3, Some 4),
       s\<lparr>heap := (heap s)(scratchTemp0 := vec_add (heap s 2) (vec_sub (heap s 2) (heap s 3)))\<rparr>)"
    for s
    using selectWindow_unfold [of "[2, 3, 4, 5]" 0 s] notin
    by (simp add: array_get_def)
  show "returned (evaluate 0 None example_state) = Inl UNDEFINED_OPERAND"
    by (simp add: returned_evaluate example_state_def loc)
  show "heap (snd (evaluate 0 None example_state)) scratchTemp0 = Cartesian3 0 0 0"
    by (simp add: evaluate_unfold example_state_def loc example_heap_def scratchTemp0_def)
  show "fst (selectWindow (points (this example_state)) 0 example_state)
          = Inr (Some scratchTemp0, Some 2, Some 3, Some 4)"
    by (simp add: example_state_def sw)
  show "heap (snd (selectWindow (points (this example_state)) 0 example_state)) scratchTemp0
          = Cartesian3 (- 1) 0 0"
    by (simp add: example_state_def sw example_heap_def vec_add_def vec_sub_def)
  obtain coefs where coefs: "Matrix4_multiplyByPoint ?M (setTimeVec 0 (Cartesian4 0 0 0 0)) = Inr coefs"
    by (simp add: BSpline_property_def bSplineCoefficientMatrix_def Matrix4_multiplyByScalar_def
        Matrix4_multiplyByPoint_def)
  let ?s3 = "example_state\<lparr>this := (this example_state)\<lparr>lastTimeIndex := 0\<rparr>,
                            scratchTimeVec := coefs\<rparr>"
  have run: "evaluate_with ?M 0 None example_state
               = andThen (selectWindow [2, 3, 4, 5] 0) (\<lambda>w. blend w coefs None) ?s3"
    using coefs by (simp add: evaluate_with_def example_state_def loc Let_def)
  have "heap (snd (andThen (selectWindow [2, 3, 4, 5] 0) (\<lambda>w. blend w coefs None) ?s3)) scratchTemp0
          = heap (snd (selectWindow [2, 3, 4, 5] 0 ?s3)) scratchTemp0"
    using blend_frame [of "(Some scratchTemp0, Some 2, Some 3, Some 4)" coefs
                          "snd (selectWindow [2, 3, 4, 5] 0 ?s3)"]
    by (simp add: snd_andThen sw example_state_def scratchTemp0_def scratchTemp1_def)
  also have "\<dots> = Cartesian3 (- 1) 0 0"
    by (simp add: sw example_state_def example_heap_def vec_add_def vec_sub_def)
  finally show "heap (snd (evaluate_with ?M 0 None example_state)) scratchTemp0 = Cartesian3 (- 1) 0 0"
    by (simp only: run)
qed

text \<open>
  C10. On a curve of at least three points and for an interval index \<open>i\<close> in
  \<open>[0, points.length - 2]\<close>, the window is made of the reads the branch taken performs
  (\<open>0, 1, 2\<close> when \<open>i = 0\<close>; \<open>i-1, i, i+1\<close> when \<open>i = points.length - 2\<close>; \<open>i-1\<close> to \<open>i+2\<close>
  otherwise) and of the scratch object, and every index read is inside
  \<open>[0, points.length - 1]\<close>, so no read is \<open>undefined\<close>. The test \<open>i === 0\<close> comes first:
  where both tests hold, on a curve of two points, the first branch is the one taken (and
  its read of \<open>points[2]\<close> is outside the array).
\<close>

theorem window_reads_in_bounds:
  "(3 \<le> length ps \<and> 0 \<le> i \<and> i \<le> int (length ps) - 2 \<longrightarrow>
      fst (selectWindow ps i s) =
        Inr (if i = 0 then (Some scratchTemp0, array_get ps 0, array_get ps 1, array_get ps 2)
             else if i = int (length ps) - 2
               then (array_get ps (i - 1), array_get ps i, array_get ps (i + 1), Some scratchTemp0)
             else (array_get ps (i - 1), array_get ps i, array_get ps (i + 1),
                   array_get ps (i + 2))) \<and>
      (\<forall>k \<in> set (if i = 0 then [0, 1, 2]
                  else if i = int (length ps) - 2 then [i - 1, i, i + 1]
                  else [i - 1, i, i + 1, i + 2]).
          0 \<le> k \<and> k \<le> int (length ps) - 1 \<and> array_get ps k = Some (ps ! nat k))) \<and>
   (length ps = 2 \<longrightarrow>
      fst (selectWindow ps 0 s) =
        Inr (Some scratchTemp0, array_get ps 0, array_get ps 1, array_get ps 2) \<and>
      array_get ps 2 = None)"
  by (auto simp: selectWindow_def Cartesian3_subtract_def Cartesian3_add_def andThen_def ret_def
      load_def store_result_def array_get_def Let_def)

theorem window_reads_in_bounds_witness:
  "fst (selectWindow [2, 3, 4, 5] 1 example_state) = Inr (Some 2, Some 3, Some 4, Some 5) \<and>
   fst (selectWindow [2, 3, 4, 5] 0 example_state) = Inr (Some scratchTemp0, Some 2, Some 3, Some 4) \<and>
   fst (selectWindow [2, 3, 4, 5] 2 example_state) = Inr (Some 3, Some 4, Some 5, Some scratchTemp0) \<and>
   fst (selectWindow [2, 3] 0 example_state) = Inr (Some scratchTemp0, Some 2, Some 3, None)"
  using window_reads_in_bounds [of "[2, 3, 4, 5]" 1 example_state]
        window_reads_in_bounds [of "[2, 3, 4, 5]" 0 example_state]
        window_reads_in_bounds [of "[2, 3, 4, 5]" 2 example_state]
        window_reads_in_bounds [of "[2, 3]" 0 example_state]
  by (simp add: array_get_def)

subsection \<open>The hint does not interfere\<close>

text \<open>
  C5. What a call returns (the point, or the exception) does not depend on the hint: this
  holds for the body of \<open>evaluate\<close> whatever the matrix read on line 144 yields, and so
  for \<open>evaluate\<close> itself. Nor does it depend on the calls made before: of three calls of
  \<open>evaluate\<close> at \<open>t1, t2, t1\<close> the first and the third have the same outcome, with any
  result objects; and for the body with any matrix, on a well-formed store and without
  result objects, the first and the third return the same point.
\<close>

theorem hint_noninterference:
  "returned (evaluate_with m t r (s\<lparr>this := (this s)\<lparr>lastTimeIndex := h\<rparr>\<rparr>))
     = returned (evaluate_with m t r s) \<and>
   returned (evaluate t1 r3 (snd (evaluate t2 r2 (snd (evaluate t1 r1 s)))))
     = returned (evaluate t1 r1 s) \<and>
   (wf_state s \<and> constructed (this s) \<longrightarrow>
      returned (evaluate_with m t1 None
                 (snd (evaluate_with m t2 None (snd (evaluate_with m t1 None s)))))
        = returned (evaluate_with m t1 None s))"
proof (intro conjI impI)
  show "returned (evaluate_with m t r (s\<lparr>this := (this s)\<lparr>lastTimeIndex := h\<rparr>\<rparr>))
          = returned (evaluate_with m t r s)"
    by (simp add: evaluate_with_def returned_def Let_def
        findTimeInterval_hint [of _ _ h "lastTimeIndex (this s)"] split: sum.splits)
next
  show "returned (evaluate t1 r3 (snd (evaluate t2 r2 (snd (evaluate t1 r1 s)))))
          = returned (evaluate t1 r1 s)"
    by (simp add: returned_evaluate evaluate_times)
next
  assume "wf_state s \<and> constructed (this s)"
  then have wf: "wf_state s" and con: "constructed (this s)" by simp_all
  let ?s1 = "snd (evaluate_with m t1 None s)"
  let ?s2 = "snd (evaluate_with m t2 None ?s1)"
  note f1 = evaluate_with_frame [OF wf, of m t1]
  then have wf1: "wf_state ?s1" by simp
  note f2 = evaluate_with_frame [OF wf1, of m t2]
  then have wf2: "wf_state ?s2" by simp
  from f1 f2 have same: "times_arr (this ?s2) = times_arr (this s)"
    "points (this ?s2) = points (this s)"
    "map (heap ?s2) (points (this s)) = map (heap s) (points (this s))"
    by simp_all
  with con have con2: "constructed (this ?s2)" by (simp add: constructed_def)
  from evaluate_with_value [OF wf2 con2, of m t1] evaluate_with_value [OF wf con, of m t1] same
  show "returned (evaluate_with m t1 None ?s2) = returned (evaluate_with m t1 None s)"
    by simp
qed

theorem hint_noninterference_witness:
  "wf_state example_state \<and> constructed (this example_state) \<and>
   returned (evaluate_with (BSpline_property ''bSplineCoefficientMatrix'') (3 / 2) None
     (snd (evaluate_with (BSpline_property ''bSplineCoefficientMatrix'') (5 / 2) None
       (snd (evaluate_with (BSpline_property ''bSplineCoefficientMatrix'') (3 / 2) None
          example_state)))))
     = Inr (Cartesian3 (3 / 2) (1 / 2) 0)"
  using hint_noninterference [where m = "BSpline_property ''bSplineCoefficientMatrix''"
          and s = example_state and ?t1.0 = "3 / 2" and ?t2.0 = "5 / 2"]
        example_wf example_constructed example_value
  by simp

subsection \<open>Evaluation at the ends of the time range\<close>

text \<open>
  C1. The claim is that \<open>evaluate(times[0])\<close> and \<open>evaluate(times[last])\<close> do not fail on
  a curve the constructor accepted. On the example curve both calls throw: the locator
  succeeds, and the matrix read on line 144 is \<open>undefined\<close>. (With the matrix the module
  defines, the same calls return the first and the last control point: lemma
  \<open>example_endpoints_value\<close>.)
\<close>

theorem evaluate_endpoints_throw:
  "BSpline_new (Some example_options) = Inr (this example_state) \<and>
   returned (evaluate 0 None example_state) = Inl UNDEFINED_OPERAND \<and>
   returned (evaluate 3 None example_state) = Inl UNDEFINED_OPERAND"
  by (simp add: example_new returned_evaluate example_state_def findTimeInterval_def upt_rec)

subsection \<open>Evaluation inside the time range\<close>

text \<open>
  C2. The claim is that \<open>evaluate\<close> returns the blend of the window by the weights of the
  matrix \<open>bSplineCoefficientMatrix\<close>. On the example curve \<open>evaluate(1.5)\<close> throws, since
  line 144 reads the property \<open>bezierCoefficientMatrix\<close>; the body run with the matrix the
  module defines returns the point \<open>(1.5, 0.5, 0)\<close> of the claim.
\<close>

theorem evaluate_interior_throws:
  "returned (evaluate (3 / 2) None example_state) = Inl UNDEFINED_OPERAND \<and>
   returned (evaluate_with (BSpline_property ''bSplineCoefficientMatrix'') (3 / 2) None
       example_state)
     = Inr (Cartesian3 (3 / 2) (1 / 2) 0)"
proof (intro conjI)
  show "returned (evaluate (3 / 2) None example_state) = Inl UNDEFINED_OPERAND"
    by (simp add: returned_evaluate example_state_def example_locate)
  show "returned (evaluate_with (BSpline_property ''bSplineCoefficientMatrix'') (3 / 2) None
          example_state)
        = Inr (Cartesian3 (3 / 2) (1 / 2) 0)"
    by (rule example_value)
qed

end
